theory Spec2Isabelle
  imports Main "HOL-Library.Finite_Map"
begin

section \<open>Data model\<close>

text \<open>
  The plugin works on plain JSON values (\<open>JSON.parse(JSON.stringify(x))\<close>). An object is a
  finite map from field names to values, so that two objects are equal exactly when they
  agree field for field.
\<close>

datatype json =
    JNull
  | JBool bool
  | JNum int
  | JStr string
  | JArr "json list"
  | JObj "(string, json) fmap"

type_synonym fields = "(string, json) fmap"

type_synonym objectId = string

text \<open>JavaScript truthiness, as used by \<open>x || y\<close>, \<open>x ? a : b\<close> and \<open>if (x)\<close>;
  \<open>None\<close> stands for \<open>undefined\<close>.\<close>

fun truthy :: "json \<Rightarrow> bool" where
  "truthy JNull = False"
| "truthy (JBool b) = b"
| "truthy (JNum n) = (n \<noteq> 0)"
| "truthy (JStr s) = (s \<noteq> [])"
| "truthy (JArr xs) = True"
| "truthy (JObj m) = True"

fun truthyOpt :: "json option \<Rightarrow> bool" where
  "truthyOpt None = False"
| "truthyOpt (Some v) = truthy v"

definition jsOr :: "json option \<Rightarrow> json option \<Rightarrow> json option" where
  "jsOr a b = (if truthyOpt a then a else b)"

subsection \<open>Semantic versions\<close>

text \<open>
  The version strings of history records are \<open>'0.0.0'\<close> or a result of \<open>semver.inc\<close>
  with one of the three bump classes of \<open>HistoryMetadata.type\<close>, hence always of the form
  \<open>major.minor.patch\<close>. They are kept parsed; string equality of two such versions is
  equality of the three numbers. A requested version is of this type too: a request that
  \<open>semver\<close> reads as a version without being the string of one, such as \<open>'v1.0.0'\<close>, is
  outside it.
\<close>

datatype semver = SemVer (major: nat) (minor: nat) (patch: nat)

datatype bump = Major | Minor | Patch

fun semver_inc :: "semver \<Rightarrow> bump \<Rightarrow> semver" where
  "semver_inc (SemVer a b c) Major = SemVer (Suc a) 0 0"
| "semver_inc (SemVer a b c) Minor = SemVer a (Suc b) 0"
| "semver_inc (SemVer a b c) Patch = SemVer a b (Suc c)"

fun semver_lt :: "semver \<Rightarrow> semver \<Rightarrow> bool" where
  "semver_lt (SemVer a b c) (SemVer a' b' c') =
     (a < a' \<or> (a = a' \<and> (b < b' \<or> (b = b' \<and> c < c'))))"

definition semver_gt :: "semver \<Rightarrow> semver \<Rightarrow> bool" where
  "semver_gt v w = semver_lt w v"

subsection \<open>The diff engine\<close>

text \<open>
  \<open>jsondiffpatch\<close> is an external package: the plugin is parametric in it. \<open>jdiff\<close> is
  \<open>jdf.diff\<close> (\<open>None\<close> is its \<open>undefined\<close> for equal arguments). \<open>jpatch\<close> is \<open>jdf.patch\<close>
  with a delta; it is partial, \<open>None\<close> standing for a call that gives no value: on a
  second argument that is no delta of the first (such as a whole snapshot) the package
  throws, or does not return; a call that does not return is treated as one that
  throws. \<open>jdf.clone\<close> is the identity on values.
\<close>

record engine =
  jdiff :: "json \<Rightarrow> json \<Rightarrow> json option"
  jpatch :: "json \<Rightarrow> json \<Rightarrow> json option"

text \<open>\<open>jdf.patch(left, delta)\<close> where the delta may be \<open>undefined\<close>: the left value is
  returned unchanged then.\<close>

definition patchOpt :: "engine \<Rightarrow> json \<Rightarrow> json option \<Rightarrow> json option" where
  "patchOpt eng left d = (case d of None \<Rightarrow> Some left | Some delta \<Rightarrow> jpatch eng left delta)"


subsection \<open>Configuration, documents and history records\<close>

record pluginOptions =
  embeddedDocument :: bool
  embeddedModelName :: string
  userFieldName :: string
  accountFieldName :: string
  timestampFieldName :: string
  methodFieldName :: string
  ignore :: "string list"
  noDiffSave :: bool
  noDiffSaveOnMethods :: "string list"
  noEventSave :: bool

text \<open>\<open>HistoryMetadata\<close>: the bump class \<open>type\<close> is typed; every other entry
  (\<open>event\<close>, \<open>reason\<close>, \<open>data\<close> and the configured user, account and method names) is
  read by name.\<close>

record historyMetadata =
  mtype :: "bump option"
  mfields :: fields

text \<open>A tracked document: \<open>this._id\<close>, \<open>this.constructor.modelName\<close>, the serialised
  paths of the document and \<open>this.__history\<close>.\<close>

record document =
  doc_id :: objectId
  modelName :: string
  docFields :: fields
  history :: "historyMetadata option"

text \<open>The object handed to \<open>new HistoryModel(obj)\<close>. The entries with configurable
  names and \<open>event\<close>, \<open>reason\<close>, \<open>data\<close> live in \<open>meta\<close>; an absent key is an omitted
  field. The key \<open>version\<close> is no key of \<open>meta\<close>: the assignment of the version comes
  last and replaces what a metadata entry of that name had put there. For the three keys
  assigned first, \<open>collectionName\<close>, \<open>collectionId\<close> and \<open>diff\<close>, the configured names
  are taken to differ from them. The casting of the values by the schema is not
  modelled.\<close>

record historyDraft =
  collectionName :: string
  collectionId :: objectId
  diff :: json
  version :: semver
  meta :: fields

text \<open>A record as the store returns it with \<open>lean()\<close>: every field may have been
  projected away. \<open>_id\<close> and the timestamp are assigned by the store on insertion.\<close>

record historyDocument =
  h_id :: "nat option"
  h_collectionName :: "string option"
  h_collectionId :: "objectId option"
  h_diff :: "json option"
  h_version :: "semver option"
  h_timestamp :: "nat option"
  h_meta :: fields

record versionResult = historyDocument +
  object :: "json option"

text \<open>A rejection of the store, a \<open>TypeError\<close> of the plugin's own code, and a call of
  \<open>jdf.patch\<close> that gives no value.\<close>

datatype error = StoreError | TypeError | PatchError

section \<open>The history store\<close>

text \<open>
  The history collection, the collection of the tracked model and the store's clock. The
  history records are held in insertion order, which is the order of their timestamps
  (one writer, one record per tick of the clock).
\<close>

record db =
  historyStore :: "historyDocument list"
  entities :: "(string \<times> objectId, fields) fmap"
  clock :: nat

text \<open>The stored record: the store assigns \<open>_id\<close>, and the schema's own pre-save hook
  sets the field of the configured timestamp name, replacing a metadata entry of that
  name.\<close>

definition newHistory :: "pluginOptions \<Rightarrow> historyDraft \<Rightarrow> nat \<Rightarrow> historyDocument" where
  "newHistory opts obj t =
     \<lparr> h_id = Some t,
       h_collectionName = Some (collectionName obj),
       h_collectionId = Some (collectionId obj),
       h_diff = Some (diff obj),
       h_version = Some (version obj),
       h_timestamp = Some t,
       h_meta = fmdrop (timestampFieldName opts) (meta obj) \<rparr>"

text \<open>\<open>history.save()\<close>.\<close>

definition saveHistory :: "pluginOptions \<Rightarrow> historyDraft \<Rightarrow> db \<Rightarrow> db" where
  "saveHistory opts obj s =
     s\<lparr> historyStore := historyStore s @ [newHistory opts obj (clock s)],
        clock := Suc (clock s) \<rparr>"

subsection \<open>Query options\<close>

text \<open>
  \<open>QueryOptions.find\<close>: equality conditions on the three fields the plugin itself
  constrains, and the caller's remaining conditions as a predicate. \<open>populate\<close> resolves
  references into other collections and is left out.
\<close>

record filter =
  f_collectionName :: "string option"
  f_collectionId :: "objectId option"
  f_version :: "semver option"
  f_other :: "historyDocument \<Rightarrow> bool"

definition emptyFilter :: filter where
  "emptyFilter = \<lparr> f_collectionName = None, f_collectionId = None, f_version = None,
                    f_other = (\<lambda>r. True) \<rparr>"

record queryOptions =
  opt_find :: "filter option"
  opt_select :: "(string, int) fmap option"
  opt_sort :: "string option"
  opt_limit :: "nat option"

definition noOptions :: queryOptions where
  "noOptions = \<lparr> opt_find = None, opt_select = None, opt_sort = None, opt_limit = None \<rparr>"

definition matches :: "filter \<Rightarrow> historyDocument \<Rightarrow> bool" where
  "matches f r \<longleftrightarrow>
     (case f_collectionName f of None \<Rightarrow> True | Some n \<Rightarrow> h_collectionName r = Some n) \<and>
     (case f_collectionId f of None \<Rightarrow> True | Some i \<Rightarrow> h_collectionId r = Some i) \<and>
     (case f_version f of None \<Rightarrow> True | Some v \<Rightarrow> h_version r = Some v) \<and>
     f_other f r"

text \<open>Sorting by the timestamp field: ascending is the storage order, descending (a
  leading \<open>-\<close>) its reverse. Other sort keys are not modelled and leave the storage order;
  so does the empty name, which is no field of a record.\<close>

definition applySort :: "pluginOptions \<Rightarrow> string \<Rightarrow> historyDocument list \<Rightarrow> historyDocument list" where
  "applySort opts s rs =
     (if timestampFieldName opts \<noteq> [] \<and> s = ''-'' @ timestampFieldName opts then rev rs else rs)"

text \<open>
  The store's projection, for top-level field names: a projection whose values are all
  \<open>0\<close> excludes the listed fields; one with non-zero values and no exclusion other than
  \<open>_id\<close> keeps the listed fields (and \<open>_id\<close> unless excluded); any other mix is rejected by
  the store.
\<close>

definition exclusionOnly :: "(string, int) fmap \<Rightarrow> bool" where
  "exclusionOnly sel = fmpred (\<lambda>k v. v = 0) sel"

definition inclusionOnly :: "(string, int) fmap \<Rightarrow> bool" where
  "inclusionOnly sel = fmpred (\<lambda>k v. k = ''_id'' \<or> v \<noteq> 0) sel"

definition keeps :: "(string, int) fmap \<Rightarrow> string \<Rightarrow> bool" where
  "keeps sel k =
     (if exclusionOnly sel then fmlookup sel k = None
      else (case fmlookup sel k of None \<Rightarrow> k = ''_id'' | Some v \<Rightarrow> v \<noteq> 0))"

definition project :: "pluginOptions \<Rightarrow> (string, int) fmap \<Rightarrow> historyDocument \<Rightarrow> historyDocument" where
  "project opts sel r =
     \<lparr> h_id = (if keeps sel ''_id'' then h_id r else None),
       h_collectionName = (if keeps sel ''collectionName'' then h_collectionName r else None),
       h_collectionId = (if keeps sel ''collectionId'' then h_collectionId r else None),
       h_diff = (if keeps sel ''diff'' then h_diff r else None),
       h_version = (if keeps sel ''version'' then h_version r else None),
       h_timestamp = (if keeps sel (timestampFieldName opts) then h_timestamp r else None),
       h_meta = fmfilter (keeps sel) (h_meta r) \<rparr>"

definition applySelect ::
  "pluginOptions \<Rightarrow> (string, int) fmap \<Rightarrow> historyDocument list \<Rightarrow> error + historyDocument list" where
  "applySelect opts sel rs =
     (if exclusionOnly sel \<or> inclusionOnly sel then Inr (map (project opts sel) rs)
      else Inl StoreError)"

datatype queryMethod = Find | FindOne

text \<open>\<open>queryHistory\<close>. The result of \<open>findOne\<close> is the list of at most one record.\<close>

definition forcedExclusions :: "(string, int) fmap \<Rightarrow> (string, int) fmap" where
  "forcedExclusions sel =
     fmupd ''collectionName'' 0 (fmupd ''collectionId'' 0 (fmupd ''_id'' 0 sel))"

definition queryHistory ::
  "pluginOptions \<Rightarrow> db \<Rightarrow> queryMethod \<Rightarrow> queryOptions \<Rightarrow> error + historyDocument list" where
  "queryHistory opts s method options =
     (let flt = (case opt_find options of None \<Rightarrow> emptyFilter | Some f \<Rightarrow> f);
          found = filter (matches flt) (historyStore s);
          sorted = (case opt_sort options of
                      None \<Rightarrow> found
                    | Some srt \<Rightarrow> if srt \<noteq> [] then applySort opts srt found else found);
          limited = (case opt_limit options of
                       None \<Rightarrow> sorted
                     | Some n \<Rightarrow> if n \<noteq> 0 then take n sorted else sorted);
          hits = (case method of Find \<Rightarrow> limited | FindOne \<Rightarrow> take 1 limited)
      in case opt_select options of
           None \<Rightarrow> Inr hits
         | Some sel \<Rightarrow> applySelect opts (forcedExclusions sel) hits)"

definition getModelName :: "pluginOptions \<Rightarrow> string \<Rightarrow> string" where
  "getModelName opts defaultName =
     (if embeddedDocument opts then embeddedModelName opts else defaultName)"

definition defaultSort :: "string option \<Rightarrow> string \<Rightarrow> string" where
  "defaultSort srt dflt = (case srt of None \<Rightarrow> dflt | Some x \<Rightarrow> if x \<noteq> [] then x else dflt)"

definition getDiffs ::
  "pluginOptions \<Rightarrow> db \<Rightarrow> document \<Rightarrow> queryOptions \<Rightarrow> error + historyDocument list" where
  "getDiffs opts s this options =
     (let flt = (case opt_find options of None \<Rightarrow> emptyFilter | Some f \<Rightarrow> f);
          flt' = flt\<lparr> f_collectionName := Some (getModelName opts (modelName this)),
                      f_collectionId := Some (doc_id this) \<rparr>
      in queryHistory opts s Find
           (options\<lparr> opt_find := Some flt',
                      opt_sort := Some (defaultSort (opt_sort options) (''-'' @ timestampFieldName opts)) \<rparr>))"

definition getDiff ::
  "pluginOptions \<Rightarrow> db \<Rightarrow> document \<Rightarrow> semver \<Rightarrow> queryOptions \<Rightarrow> error + historyDocument option" where
  "getDiff opts s this v options =
     (let flt = (case opt_find options of None \<Rightarrow> emptyFilter | Some f \<Rightarrow> f);
          flt' = flt\<lparr> f_collectionName := Some (getModelName opts (modelName this)),
                      f_collectionId := Some (doc_id this),
                      f_version := Some v \<rparr>
      in case queryHistory opts s FindOne
           (options\<lparr> opt_find := Some flt',
                      opt_sort := Some (defaultSort (opt_sort options) (''-'' @ timestampFieldName opts)) \<rparr>)
         of Inl e \<Rightarrow> Inl e
          | Inr rs \<Rightarrow> Inr (case rs of [] \<Rightarrow> None | r # _ \<Rightarrow> Some r))"

section \<open>Replay\<close>

definition asResult :: "historyDocument \<Rightarrow> json option \<Rightarrow> json option \<Rightarrow> versionResult" where
  "asResult h d obj =
     \<lparr> h_id = h_id h, h_collectionName = h_collectionName h, h_collectionId = h_collectionId h,
       h_diff = d, h_version = h_version h, h_timestamp = h_timestamp h, h_meta = h_meta h,
       object = obj \<rparr>"

text \<open>The loop of \<open>getVersions\<close>: patch the running state with each diff, attach a clone of
  it to the record and delete the record's diff. A patch that gives no value ends the
  call.\<close>

fun replayAll :: "engine \<Rightarrow> json \<Rightarrow> historyDocument list \<Rightarrow> error + versionResult list" where
  "replayAll eng currentVersion [] = Inr []"
| "replayAll eng currentVersion (h # hs) =
     (case patchOpt eng currentVersion (h_diff h) of
        None \<Rightarrow> Inl PatchError
      | Some cur \<Rightarrow>
          (case replayAll eng cur hs of
             Inl e \<Rightarrow> Inl e
           | Inr results \<Rightarrow> Inr (asResult h None (Some cur) # results)))"

definition getVersions ::
  "pluginOptions \<Rightarrow> engine \<Rightarrow> db \<Rightarrow> document \<Rightarrow> queryOptions \<Rightarrow> bool \<Rightarrow> error + versionResult list" where
  "getVersions opts eng s this options includeObject =
     (case getDiffs opts s this
             (options\<lparr> opt_sort := Some (defaultSort (opt_sort options) (timestampFieldName opts)) \<rparr>) of
        Inl e \<Rightarrow> Inl e
      | Inr histories \<Rightarrow>
          if \<not> includeObject then Inr (map (\<lambda>h. asResult h (h_diff h) None) histories)
          else replayAll eng (JObj fmempty) histories)"

text \<open>The first \<open>forEach\<close> of \<open>getVersion\<close>: the last record whose version is the target.\<close>

fun findHistory :: "semver \<Rightarrow> historyDocument option \<Rightarrow> historyDocument list \<Rightarrow> historyDocument option" where
  "findHistory v found [] = found"
| "findHistory v found (item # rest) =
     findHistory v (if h_version item = Some v then Some item else found) rest"

text \<open>The second \<open>forEach\<close>: \<open>semver.lt\<close> throws on a record without a version, and a
  patch that gives no value ends the call.\<close>

fun replayTo :: "engine \<Rightarrow> semver \<Rightarrow> json \<Rightarrow> historyDocument list \<Rightarrow> error + json" where
  "replayTo eng v currentVersion [] = Inr currentVersion"
| "replayTo eng v currentVersion (item # rest) =
     (case h_version item of
        None \<Rightarrow> Inl TypeError
      | Some w \<Rightarrow>
          if semver_lt w v \<or> w = v then
            (case patchOpt eng currentVersion (h_diff item) of
               None \<Rightarrow> Inl PatchError
             | Some cur \<Rightarrow> replayTo eng v cur rest)
          else replayTo eng v currentVersion rest)"

text \<open>Reading \<open>.version\<close> of \<open>histories[histories.length - 1]\<close> and of \<open>histories[0]\<close>
  throws when the list is empty; \<open>semver.gt\<close> and \<open>semver.lt\<close> throw on an undefined
  version.\<close>

definition clampVersion :: "semver \<Rightarrow> historyDocument list \<Rightarrow> error + semver" where
  "clampVersion version2get histories =
     (case histories of
        [] \<Rightarrow> Inl TypeError
      | firstVersion # _ \<Rightarrow>
          (case h_version (last histories) of
             None \<Rightarrow> Inl TypeError
           | Some lv \<Rightarrow>
               (let v1 = (if semver_gt version2get lv then lv else version2get)
                in case h_version firstVersion of
                     None \<Rightarrow> Inl TypeError
                   | Some fv \<Rightarrow> Inr (if semver_lt v1 fv then fv else v1))))"

definition getVersion ::
  "pluginOptions \<Rightarrow> engine \<Rightarrow> db \<Rightarrow> document \<Rightarrow> semver \<Rightarrow> bool \<Rightarrow> error + versionResult option" where
  "getVersion opts eng s this version2get includeObject =
     (case getDiffs opts s this (noOptions\<lparr> opt_sort := Some (timestampFieldName opts) \<rparr>) of
        Inl e \<Rightarrow> Inl e
      | Inr histories \<Rightarrow>
          (case clampVersion version2get histories of
             Inl e \<Rightarrow> Inl e
           | Inr v \<Rightarrow>
               (let history = findHistory v None histories
                in if \<not> includeObject
                   then Inr (map_option (\<lambda>h. asResult h (h_diff h) None) history)
                   else (case replayTo eng v (JObj fmempty) histories of
                           Inl e \<Rightarrow> Inl e
                         | Inr currentVersion \<Rightarrow>
                             (case history of
                                None \<Rightarrow> Inl TypeError
                              | Some h \<Rightarrow> Inr (Some (asResult h None (Some currentVersion))))))))"


text \<open>\<open>x || {}\<close>.\<close>

definition orEmpty :: "json option \<Rightarrow> json" where
  "orEmpty x = (case x of None \<Rightarrow> JObj fmempty | Some v \<Rightarrow> if truthy v then v else JObj fmempty)"



section \<open>The pre-save pipeline\<close>

text \<open>
  What the store answers to the hook's calls, each as a value: \<open>this.getVersions()\<close>,
  \<open>Constructor.findById(this._id)\<close>, the lookup of the last history record, and
  \<open>history.save()\<close>. A call that is not made ignores its entry.
\<close>

record io =
  io_getVersions :: "error + versionResult list"
  io_findById :: "error + fields option"
  io_lastHistory :: "error + historyDocument option"
  io_save :: "error option"

definition getPrevious :: "pluginOptions \<Rightarrow> io \<Rightarrow> error + json option" where
  "getPrevious opts answers =
     (if embeddedDocument opts then
        (case io_getVersions answers of
           Inl e \<Rightarrow> Inr (Some (JObj fmempty))
         | Inr versions \<Rightarrow>
             if versions \<noteq> [] then Inr (Some (orEmpty (object (last versions))))
             else Inr (Some (JObj fmempty)))
      else
        (case io_findById answers of
           Inl e \<Rightarrow> Inl e
         | Inr previous \<Rightarrow> Inr (map_option JObj previous)))"

text \<open>Deleting \<open>__history\<close>, \<open>__v\<close> and every ignored field; \<open>delete\<close> on a value that is
  not an object does nothing.\<close>

definition normalise :: "pluginOptions \<Rightarrow> json \<Rightarrow> json" where
  "normalise opts j =
     (case j of
        JObj m \<Rightarrow> JObj (fold fmdrop (ignore opts) (fmdrop ''__v'' (fmdrop ''__history'' m)))
      | _ \<Rightarrow> j)"

definition currentObject :: "pluginOptions \<Rightarrow> document \<Rightarrow> json" where
  "currentObject opts this = normalise opts (JObj (docFields this))"

definition previousObject :: "pluginOptions \<Rightarrow> json option \<Rightarrow> json" where
  "previousObject opts previous =
     (case previous of
        None \<Rightarrow> JObj fmempty
      | Some p \<Rightarrow> if truthy p then normalise opts p else JObj fmempty)"

text \<open>\<open>saveWithoutDiff\<close>: pending metadata, a non-empty list, and a truthy method tag that
  the list includes.\<close>

definition saveWithoutDiff :: "pluginOptions \<Rightarrow> document \<Rightarrow> bool" where
  "saveWithoutDiff opts this =
     (case history this of
        None \<Rightarrow> False
      | Some h \<Rightarrow>
          noDiffSaveOnMethods opts \<noteq> [] \<and>
          (case fmlookup (mfields h) (methodFieldName opts) of
             Some (JStr method) \<Rightarrow> method \<noteq> [] \<and> method \<in> set (noDiffSaveOnMethods opts)
           | _ \<Rightarrow> False))"

definition currentDiff :: "pluginOptions \<Rightarrow> engine \<Rightarrow> bool \<Rightarrow> document \<Rightarrow> json option \<Rightarrow> json option" where
  "currentDiff opts eng forceSave this previous =
     (if saveWithoutDiff opts this \<and> forceSave then Some (previousObject opts previous)
      else jdiff eng (previousObject opts previous) (currentObject opts this))"

text \<open>\<open>obj[k] = v\<close> followed by the final removal of the keys whose value is
  \<open>undefined\<close>.\<close>

definition assign :: "string \<Rightarrow> json option \<Rightarrow> fields \<Rightarrow> fields" where
  "assign k v obj = (case v of None \<Rightarrow> fmdrop k obj | Some x \<Rightarrow> fmupd k x obj)"

text \<open>The metadata entries of the record, in the order of the assignments: a later
  assignment to the same name replaces an earlier one.\<close>

definition recordMeta :: "pluginOptions \<Rightarrow> document \<Rightarrow> fields" where
  "recordMeta opts this =
     (case history this of
        None \<Rightarrow> fmempty
      | Some h \<Rightarrow>
          assign (methodFieldName opts) (fmlookup (mfields h) (methodFieldName opts))
            (assign ''data'' (fmlookup (mfields h) ''data'')
              (assign ''reason'' (fmlookup (mfields h) ''reason'')
                (assign (accountFieldName opts)
                   (jsOr (fmlookup (docFields this) (accountFieldName opts))
                         (fmlookup (mfields h) (accountFieldName opts)))
                  (assign (userFieldName opts) (fmlookup (mfields h) (userFieldName opts))
                    (assign ''event'' (fmlookup (mfields h) ''event'') fmempty))))))"

definition bumpType :: "document \<Rightarrow> bump" where
  "bumpType this =
     (case history this of
        None \<Rightarrow> Major
      | Some h \<Rightarrow> (case mtype h of None \<Rightarrow> Major | Some t \<Rightarrow> t))"

text \<open>\<open>version || '0.0.0'\<close> without a last record. The last record is read as a document
  of the history model, not lean: a record stored without a version reads with the
  schema's default \<open>'0.0.0'\<close>.\<close>

definition nextVersion :: "document \<Rightarrow> historyDocument option \<Rightarrow> semver" where
  "nextVersion this lastHistory =
     (case lastHistory of
        None \<Rightarrow> SemVer 0 0 0
      | Some l \<Rightarrow>
          (case h_version l of
             None \<Rightarrow> semver_inc (SemVer 0 0 0) (bumpType this)
           | Some v \<Rightarrow> semver_inc v (bumpType this)))"

definition buildRecord ::
  "pluginOptions \<Rightarrow> document \<Rightarrow> json option \<Rightarrow> historyDocument option \<Rightarrow> historyDraft" where
  "buildRecord opts this d lastHistory =
     \<lparr> collectionName = getModelName opts (modelName this),
       collectionId = doc_id this,
       diff = orEmpty d,
       version = nextVersion this lastHistory,
       meta = fmdrop ''version'' (recordMeta opts this) \<rparr>"

text \<open>
  The hook returned by \<open>preSave(forceSave)\<close>, up to the call of \<open>next\<close>: \<open>Inl e\<close> is
  \<open>next(e)\<close>, which fails the mutation; \<open>Inr (this', r)\<close> is \<open>next()\<close> with the document as
  the hook leaves it and the record that was saved, if any.
\<close>

definition preSaveHook ::
  "pluginOptions \<Rightarrow> engine \<Rightarrow> bool \<Rightarrow> document \<Rightarrow> io \<Rightarrow> error + document \<times> historyDraft option" where
  "preSaveHook opts eng forceSave this answers =
     (if history this \<noteq> None \<or> noEventSave opts then
        (case getPrevious opts answers of
           Inl e \<Rightarrow> Inl e
         | Inr previous \<Rightarrow>
             (let d = currentDiff opts eng forceSave this previous
              in if truthyOpt d \<or> noDiffSave opts \<or> saveWithoutDiff opts this then
                   (case io_lastHistory answers of
                      Inl e \<Rightarrow> Inl e
                    | Inr lastHistory \<Rightarrow>
                        (case io_save answers of
                           Some e \<Rightarrow> Inl e
                         | None \<Rightarrow>
                             Inr (this\<lparr> history := None \<rparr>,
                                  Some (buildRecord opts this d lastHistory))))
                 else Inr (this, None)))
      else Inr (this, None))"

subsection \<open>The hook on a store that answers every call\<close>

definition ownFilter :: "pluginOptions \<Rightarrow> document \<Rightarrow> filter" where
  "ownFilter opts this =
     emptyFilter\<lparr> f_collectionName := Some (getModelName opts (modelName this)),
                  f_collectionId := Some (doc_id this) \<rparr>"

text \<open>\<open>HistoryModel.findOne({collectionName, collectionId}).sort('-' + timestamp)
  .select({version: 1})\<close>.\<close>

definition lastHistoryOf :: "pluginOptions \<Rightarrow> db \<Rightarrow> document \<Rightarrow> historyDocument option" where
  "lastHistoryOf opts s this =
     (case rev (filter (matches (ownFilter opts this)) (historyStore s)) of
        [] \<Rightarrow> None
      | r # _ \<Rightarrow> Some (project opts (fmupd ''version'' 1 fmempty) r))"

definition storeAnswers :: "pluginOptions \<Rightarrow> engine \<Rightarrow> db \<Rightarrow> document \<Rightarrow> io" where
  "storeAnswers opts eng s this =
     \<lparr> io_getVersions = getVersions opts eng s this noOptions True,
       io_findById = Inr (fmlookup (entities s) (modelName this, doc_id this)),
       io_lastHistory = Inr (lastHistoryOf opts s this),
       io_save = None \<rparr>"

definition preSave ::
  "pluginOptions \<Rightarrow> engine \<Rightarrow> bool \<Rightarrow> document \<Rightarrow> db \<Rightarrow> error + document \<times> db" where
  "preSave opts eng forceSave this s =
     (case preSaveHook opts eng forceSave this (storeAnswers opts eng s this) of
        Inl e \<Rightarrow> Inl e
      | Inr (this', None) \<Rightarrow> Inr (this', s)
      | Inr (this', Some obj) \<Rightarrow> Inr (this', saveHistory opts obj s))"

text \<open>The two mutations the hook is registered for: \<open>save\<close> runs \<open>preSave(false)\<close> and
  then writes the document (a top-level document into its collection; an embedded one
  lives in its parent), \<open>deleteOne\<close> runs \<open>preSave(true)\<close> and then removes it.\<close>

definition save :: "pluginOptions \<Rightarrow> engine \<Rightarrow> document \<Rightarrow> db \<Rightarrow> error + document \<times> db" where
  "save opts eng this s =
     (case preSave opts eng False this s of
        Inl e \<Rightarrow> Inl e
      | Inr (this', s') \<Rightarrow>
          Inr (this',
               if embeddedDocument opts then s'
               else s'\<lparr> entities := fmupd (modelName this, doc_id this) (docFields this) (entities s') \<rparr>))"

definition deleteOne :: "pluginOptions \<Rightarrow> engine \<Rightarrow> document \<Rightarrow> db \<Rightarrow> error + document \<times> db" where
  "deleteOne opts eng this s =
     (case preSave opts eng True this s of
        Inl e \<Rightarrow> Inl e
      | Inr (this', s') \<Rightarrow>
          Inr (this',
               if embeddedDocument opts then s'
               else s'\<lparr> entities := fmdrop (modelName this, doc_id this) (entities s') \<rparr>))"

section \<open>Histories of one entity\<close>

text \<open>The records of one entity in timestamp order, and the state reached by patching a
  start value with their diffs in that order, if every patch gives a value.\<close>

definition ownHistories :: "pluginOptions \<Rightarrow> db \<Rightarrow> document \<Rightarrow> historyDocument list" where
  "ownHistories opts s this = filter (matches (ownFilter opts this)) (historyStore s)"

fun stateAfter :: "engine \<Rightarrow> json \<Rightarrow> historyDocument list \<Rightarrow> json option" where
  "stateAfter eng start [] = Some start"
| "stateAfter eng start (h # hs) =
     (case patchOpt eng start (h_diff h) of
        None \<Rightarrow> None
      | Some cur \<Rightarrow> stateAfter eng cur hs)"


text \<open>Successive saves, each with the document as the caller presents it.\<close>

fun saveAll :: "pluginOptions \<Rightarrow> engine \<Rightarrow> document list \<Rightarrow> db \<Rightarrow> error + db" where
  "saveAll opts eng [] s = Inr s"
| "saveAll opts eng (d # ds) s =
     (case save opts eng d s of
        Inl e \<Rightarrow> Inl e
      | Inr (d', s') \<Rightarrow> saveAll opts eng ds s')"


definition emptyDb :: db where
  "emptyDb = \<lparr> historyStore = [], entities = fmempty, clock = 0 \<rparr>"

text \<open>Every stored record carries the fields that \<open>saveHistory\<close> sets.\<close>

definition storeComplete :: "db \<Rightarrow> bool" where
  "storeComplete s =
     list_all (\<lambda>r. h_id r \<noteq> None \<and> h_collectionName r \<noteq> None \<and> h_collectionId r \<noteq> None \<and>
                    h_version r \<noteq> None) (historyStore s)"

section \<open>An engine for plain objects\<close>

text \<open>
  The delta format of \<open>jsondiffpatch\<close> on objects, as the tests of the plugin show it
  (\<open>{ _id: [id], size: ['small'] }\<close>, \<open>{ size: ['small', 'large'] }\<close>): \<open>[new]\<close> for an
  added field, \<open>[old, new]\<close> for a changed one, \<open>[old, 0, 0]\<close> for a removed one. Field
  values are compared whole. Patching an object with an object of such entries leaves
  every field alone that the delta does not mention; patching with the empty object
  changes nothing, as the contract asks (the tests fix the deltas only); a second
  argument of any other form, such as a snapshot, gives no value.
\<close>

definition objectDelta :: "fields \<Rightarrow> fields \<Rightarrow> fields" where
  "objectDelta x y =
     fmmap_keys (\<lambda>k v. case fmlookup y k of
                          None \<Rightarrow> JArr [v, JNum 0, JNum 0]
                        | Some w \<Rightarrow> JArr [v, w])
        (fmfilter (\<lambda>k. fmlookup x k \<noteq> fmlookup y k) x)
     ++\<^sub>f fmmap (\<lambda>w. JArr [w]) (fmfilter (\<lambda>k. fmlookup x k = None) y)"

definition plainDiff :: "json \<Rightarrow> json \<Rightarrow> json option" where
  "plainDiff a b =
     (if a = b then None
      else (case (a, b) of
              (JObj x, JObj y) \<Rightarrow> Some (JObj (objectDelta x y))
            | _ \<Rightarrow> Some (JArr [a, b])))"

fun setsField :: "json option \<Rightarrow> bool" where
  "setsField (Some (JArr [v])) = True"
| "setsField (Some (JArr [u, v])) = True"
| "setsField _ = False"

fun newValue :: "json \<Rightarrow> json" where
  "newValue (JArr [v]) = v"
| "newValue (JArr [u, v]) = v"
| "newValue d = d"

definition objectPatch :: "fields \<Rightarrow> fields \<Rightarrow> fields" where
  "objectPatch x d =
     fmfilter (\<lambda>k. fmlookup d k = None) x
     ++\<^sub>f fmmap newValue (fmfilter (\<lambda>k. setsField (fmlookup d k)) d)"

fun fieldDelta :: "json \<Rightarrow> bool" where
  "fieldDelta (JArr [v]) = True"
| "fieldDelta (JArr [u, v]) = True"
| "fieldDelta (JArr [u, a, b]) = (a = JNum 0 \<and> b = JNum 0)"
| "fieldDelta d = False"

fun plainPatch :: "json \<Rightarrow> json \<Rightarrow> json option" where
  "plainPatch a (JArr [v]) = Some v"
| "plainPatch a (JArr [u, v]) = Some v"
| "plainPatch a (JObj d) =
     (if d = fmempty then Some a
      else (case a of
              JObj x \<Rightarrow> if fmpred (\<lambda>k. fieldDelta) d then Some (JObj (objectPatch x d)) else None
            | _ \<Rightarrow> None))"
| "plainPatch a d = None"

definition plainEngine :: engine where
  "plainEngine = \<lparr> jdiff = plainDiff, jpatch = plainPatch \<rparr>"

section \<open>The tank of the test suite\<close>

definition tankOptions :: pluginOptions where
  "tankOptions =
     \<lparr> embeddedDocument = False, embeddedModelName = [],
       userFieldName = ''user'', accountFieldName = ''account'',
       timestampFieldName = ''timestamp'', methodFieldName = ''method'',
       ignore = [], noDiffSave = False, noDiffSaveOnMethods = [''delete''],
       noEventSave = True \<rparr>"

definition tank :: "string \<Rightarrow> document" where
  "tank sz =
     \<lparr> doc_id = ''t1'', modelName = ''tank'',
       docFields = fmupd ''size'' (JStr sz) (fmupd ''_id'' (JStr ''t1'') fmempty),
       history = None \<rparr>"


text \<open>The store after the two saves of the test \<open>should create history when save a
  change\<close>, and the same store with its first history record pruned.\<close>

definition twoSaves :: db where
  "twoSaves =
     (case saveAll tankOptions plainEngine [tank ''small'', tank ''large''] emptyDb of
        Inl e \<Rightarrow> emptyDb
      | Inr s \<Rightarrow> s)"

definition prunedDb :: db where
  "prunedDb = twoSaves\<lparr> historyStore := tl (historyStore twoSaves) \<rparr>"

section \<open>What the hook sees of the store\<close>

text \<open>The previous state that the hook obtains from a store that answers.\<close>

definition previousState :: "pluginOptions \<Rightarrow> engine \<Rightarrow> db \<Rightarrow> document \<Rightarrow> json option" where
  "previousState opts eng s this =
     (case getPrevious opts (storeAnswers opts eng s this) of Inl e \<Rightarrow> None | Inr p \<Rightarrow> p)"

section \<open>Further documents and answers of the store\<close>

text \<open>A store whose point lookup rejects, and one that finds the small tank.\<close>

definition lookupFails :: io where
  "lookupFails =
     \<lparr> io_getVersions = Inr [], io_findById = Inl StoreError, io_lastHistory = Inr None,
       io_save = None \<rparr>"

definition findsSmall :: io where
  "findsSmall =
     \<lparr> io_getVersions = Inr [], io_findById = Inr (Some (docFields (tank ''small''))),
       io_lastHistory = Inr None, io_save = None \<rparr>"


definition tagged :: "string \<Rightarrow> document \<Rightarrow> document" where
  "tagged m d =
     d\<lparr> history := Some \<lparr> mtype = None, mfields = fmupd ''method'' (JStr m) fmempty \<rparr> \<rparr>"

text \<open>A tank that belongs to account \<open>A1\<close>, saved with metadata that names account
  \<open>A2\<close>.\<close>

definition ownedTank :: document where
  "ownedTank =
     \<lparr> doc_id = ''t1'', modelName = ''tank'',
       docFields = fmupd ''account'' (JStr ''A1'')
                     (fmupd ''size'' (JStr ''small'') (fmupd ''_id'' (JStr ''t1'') fmempty)),
       history = Some \<lparr> mtype = None,
                        mfields = fmupd ''account'' (JStr ''A2'')
                                    (fmupd ''event'' (JStr ''created'') fmempty) \<rparr> \<rparr>"

text \<open>The embedded tank of the test suite.\<close>

definition embeddedOptions :: pluginOptions where
  "embeddedOptions =
     tankOptions\<lparr> embeddedDocument := True, embeddedModelName := ''EmbeddedCollection'' \<rparr>"

section \<open>Recording only on request\<close>






section \<open>Replay to a version, as specified\<close>


text \<open>The store after the two saves and the deletion of the tank with the method tag
  \<open>delete\<close>: the third record holds the snapshot of the large tank as its diff.\<close>

definition afterDelete :: db where
  "afterDelete =
     (case deleteOne tankOptions plainEngine (tagged ''delete'' (tank ''large'')) twoSaves of
        Inl e \<Rightarrow> twoSaves
      | Inr (d, s) \<Rightarrow> s)"

section \<open>The plain engine keeps the contract\<close>





lemma plainPatch_empty: "plainPatch a (JObj fmempty) = Some a"
  by simp



section \<open>Queries of one entity\<close>

lemma applySort_ascending: "applySort opts (timestampFieldName opts) rs = rs"
  by (simp add: applySort_def)

lemma applySort_no_name: "timestampFieldName opts = [] \<Longrightarrow> applySort opts x rs = rs"
  by (simp add: applySort_def)

lemma getDiffs_ascending:
  "getDiffs opts s this (noOptions\<lparr> opt_sort := Some (timestampFieldName opts) \<rparr>)
     = Inr (ownHistories opts s this)"
  by (simp add: getDiffs_def queryHistory_def noOptions_def defaultSort_def applySort_ascending applySort_no_name
      ownHistories_def ownFilter_def Let_def)



section \<open>Replay to a version\<close>

lemma semver_lt_irrefl: "\<not> semver_lt v v"
  by (cases v) simp

lemma semver_lt_trans: "semver_lt u v \<Longrightarrow> semver_lt v w \<Longrightarrow> semver_lt u w"
  by (cases u; cases v; cases w) auto

lemma clamp_above:
  assumes "h_version first = Some fv" "h_version (last (first # rest)) = Some lv" "semver_gt v lv"
  shows "clampVersion v (first # rest) = clampVersion lv (first # rest)"
  using assms by (simp add: clampVersion_def semver_gt_def semver_lt_irrefl)

lemma clamp_below:
  assumes "h_version first = Some fv" "h_version (last (first # rest)) = Some lv" "semver_lt v fv"
  shows "clampVersion v (first # rest) = Inr fv" "clampVersion fv (first # rest) = Inr fv"
  using assms semver_lt_trans[of lv v fv]
  by (auto simp add: clampVersion_def semver_gt_def semver_lt_irrefl Let_def)

lemma clamp_recorded:
  assumes "h_version first = Some fv" "h_version (last (first # rest)) = Some lv"
    "semver_gt v lv \<or> semver_lt v fv"
  shows "clampVersion v (first # rest) = Inr fv \<or> clampVersion v (first # rest) = Inr lv"
  using assms semver_lt_trans[of lv v fv]
  by (auto simp add: clampVersion_def semver_gt_def semver_lt_irrefl Let_def)

lemma findHistory_found:
  "found \<noteq> None \<or> (\<exists>h\<in>set hs. h_version h = Some c) \<Longrightarrow> findHistory c found hs \<noteq> None"
  by (induction hs arbitrary: found) auto

lemma findHistory_missing:
  "\<forall>h\<in>set hs. h_version h \<noteq> Some c \<Longrightarrow> findHistory c found hs = found"
  by (induction hs arbitrary: found) auto

lemma replayTo_foldUpTo:
  "list_all (\<lambda>h. h_version h \<noteq> None) hs \<Longrightarrow>
     replayTo eng v cur hs =
       (case stateAfter eng cur
               (filter (\<lambda>h. case h_version h of None \<Rightarrow> False | Some w \<Rightarrow> semver_lt w v \<or> w = v) hs) of
          None \<Rightarrow> Inl PatchError
        | Some j \<Rightarrow> Inr j)"
  by (induction hs arbitrary: cur) (auto split: option.splits)

lemma replayTo_outcome:
  "list_all (\<lambda>h. h_version h \<noteq> None) hs \<Longrightarrow>
     replayTo eng v cur hs = Inl PatchError \<or> (\<exists>j. replayTo eng v cur hs = Inr j)"
  by (auto simp: replayTo_foldUpTo split: option.splits)

lemma getVersion_of_clamp:
  "getVersion opts eng s this v inc =
     (case clampVersion v (ownHistories opts s this) of
        Inl e \<Rightarrow> Inl e
      | Inr c \<Rightarrow>
          (let history = findHistory c None (ownHistories opts s this)
           in if \<not> inc then Inr (map_option (\<lambda>h. asResult h (h_diff h) None) history)
              else (case replayTo eng c (JObj fmempty) (ownHistories opts s this) of
                      Inl e \<Rightarrow> Inl e
                    | Inr currentVersion \<Rightarrow>
                        (case history of
                           None \<Rightarrow> Inl TypeError
                         | Some h \<Rightarrow> Inr (Some (asResult h None (Some currentVersion)))))))"
  by (simp add: getVersion_def getDiffs_ascending)

lemma getVersion_no_history:
  "ownHistories opts s this = [] \<Longrightarrow> getVersion opts eng s this v inc = Inl TypeError"
  by (simp add: getVersion_of_clamp clampVersion_def)

lemma getVersion_recorded:
  assumes "list_all (\<lambda>h. h_version h \<noteq> None) (ownHistories opts s this)"
    and "clampVersion v (ownHistories opts s this) = Inr c"
    and "\<exists>h\<in>set (ownHistories opts s this). h_version h = Some c"
  shows "(\<exists>r. getVersion opts eng s this v False = Inr (Some r)) \<and>
         (getVersion opts eng s this v True = Inl PatchError \<or>
          (\<exists>r. getVersion opts eng s this v True = Inr (Some r)))"
proof -
  obtain h where h: "findHistory c None (ownHistories opts s this) = Some h"
    using findHistory_found[of None "ownHistories opts s this" c] assms(3) by auto
  show ?thesis
    using replayTo_outcome[OF assms(1), of eng c "JObj fmempty"]
    by (auto simp: getVersion_of_clamp assms(2) h Let_def)
qed

lemma storeComplete_versions:
  "storeComplete s \<Longrightarrow> list_all (\<lambda>h. h_version h \<noteq> None) (ownHistories opts s this)"
  by (auto simp: storeComplete_def ownHistories_def list_all_iff)

text \<open>
  Claim C5. For an entity with at least one history record, \<open>getVersion\<close> with a version
  greater than that of the latest record gives the result of \<open>getVersion\<close> at the latest
  version, and with a version less than that of the earliest record the result of
  \<open>getVersion\<close> at the earliest version: the same record and snapshot, or the same failure
  when a patch of the replay gives no value. The clamped target is the version of a
  record, so that no such call fails for want of a record: without the snapshot it
  returns the record, and with the snapshot it returns the record unless a patch fails.
\<close>

theorem getVersion_clamps:
  assumes some: "ownHistories opts s this \<noteq> []"
    and earliest: "h_version (hd (ownHistories opts s this)) = Some earliest"
    and latest: "h_version (last (ownHistories opts s this)) = Some latest"
  shows "(semver_gt v latest \<longrightarrow>
            getVersion opts eng s this v inc = getVersion opts eng s this latest inc) \<and>
         (semver_lt v earliest \<longrightarrow>
            getVersion opts eng s this v inc = getVersion opts eng s this earliest inc) \<and>
         (storeComplete s \<and> (semver_gt v latest \<or> semver_lt v earliest) \<longrightarrow>
            (\<exists>r. getVersion opts eng s this v False = Inr (Some r)) \<and>
            (getVersion opts eng s this v True = Inl PatchError \<or>
             (\<exists>r. getVersion opts eng s this v True = Inr (Some r))))"
proof -
  obtain first rest where hs: "ownHistories opts s this = first # rest"
    using some by (cases "ownHistories opts s this") auto
  have fv: "h_version first = Some earliest"
    using earliest hs by simp
  have lv: "h_version (last (first # rest)) = Some latest"
    using latest hs by simp
  have above: "getVersion opts eng s this v inc = getVersion opts eng s this latest inc"
    if "semver_gt v latest"
    using clamp_above[OF fv lv that] by (simp add: getVersion_of_clamp hs)
  have below: "getVersion opts eng s this v inc = getVersion opts eng s this earliest inc"
    if "semver_lt v earliest"
    using clamp_below[OF fv lv that] by (simp add: getVersion_of_clamp hs)
  have recorded: "(\<exists>r. getVersion opts eng s this v False = Inr (Some r)) \<and>
            (getVersion opts eng s this v True = Inl PatchError \<or>
             (\<exists>r. getVersion opts eng s this v True = Inr (Some r)))"
    if complete: "storeComplete s" and out: "semver_gt v latest \<or> semver_lt v earliest"
  proof -
    have vs: "list_all (\<lambda>h. h_version h \<noteq> None) (ownHistories opts s this)"
      by (rule storeComplete_versions[OF complete])
    have first_in: "\<exists>h\<in>set (ownHistories opts s this). h_version h = Some earliest"
      using fv hs by auto
    have "last (first # rest) \<in> set (first # rest)"
      by (rule last_in_set) simp
    then have last_in: "\<exists>h\<in>set (ownHistories opts s this). h_version h = Some latest"
      using lv hs by metis
    from clamp_recorded[OF fv lv out] show ?thesis
    proof
      assume "clampVersion v (first # rest) = Inr earliest"
      then have "clampVersion v (ownHistories opts s this) = Inr earliest"
        using hs by simp
      then show ?thesis
        by (rule getVersion_recorded[OF vs _ first_in])
    next
      assume "clampVersion v (first # rest) = Inr latest"
      then have "clampVersion v (ownHistories opts s this) = Inr latest"
        using hs by simp
      then show ?thesis
        by (rule getVersion_recorded[OF vs _ last_in])
    qed
  qed
  show ?thesis
    using above below recorded by blast
qed

theorem getVersion_clamps_witness:
  "semver_gt (SemVer 5 0 0) (SemVer 1 0 0) \<and>
   getVersion tankOptions plainEngine twoSaves (tank ''large'') (SemVer 5 0 0) True
     = getVersion tankOptions plainEngine twoSaves (tank ''large'') (SemVer 1 0 0) True \<and>
   (\<exists>r. getVersion tankOptions plainEngine twoSaves (tank ''large'') (SemVer 5 0 0) True
           = Inr (Some r)) \<and>
   semver_lt (SemVer 0 5 0) (SemVer 1 0 0) \<and>
   getVersion tankOptions plainEngine prunedDb (tank ''large'') (SemVer 0 5 0) True
     = getVersion tankOptions plainEngine prunedDb (tank ''large'') (SemVer 1 0 0) True \<and>
   semver_gt (SemVer 9 0 0) (SemVer 2 0 0) \<and>
   getVersion tankOptions plainEngine afterDelete (tank ''large'') (SemVer 9 0 0) True
     = getVersion tankOptions plainEngine afterDelete (tank ''large'') (SemVer 2 0 0) True \<and>
   getVersion tankOptions plainEngine afterDelete (tank ''large'') (SemVer 2 0 0) True
     = Inl PatchError"
proof -
  have c2: "storeComplete twoSaves" by code_simp
  have n2: "ownHistories tankOptions twoSaves (tank ''large'') \<noteq> []" by code_simp
  have e2: "h_version (hd (ownHistories tankOptions twoSaves (tank ''large''))) = Some (SemVer 0 0 0)"
    by code_simp
  have l2: "h_version (last (ownHistories tankOptions twoSaves (tank ''large''))) = Some (SemVer 1 0 0)"
    by code_simp
  have n1: "ownHistories tankOptions prunedDb (tank ''large'') \<noteq> []" by code_simp
  have e1: "h_version (hd (ownHistories tankOptions prunedDb (tank ''large''))) = Some (SemVer 1 0 0)"
    by code_simp
  have l1: "h_version (last (ownHistories tankOptions prunedDb (tank ''large''))) = Some (SemVer 1 0 0)"
    by code_simp
  have n3: "ownHistories tankOptions afterDelete (tank ''large'') \<noteq> []" by code_simp
  have e3: "h_version (hd (ownHistories tankOptions afterDelete (tank ''large''))) = Some (SemVer 0 0 0)"
    by code_simp
  have l3: "h_version (last (ownHistories tankOptions afterDelete (tank ''large''))) = Some (SemVer 2 0 0)"
    by code_simp
  have g: "semver_gt (SemVer 5 0 0) (SemVer 1 0 0)" by (simp add: semver_gt_def)
  have l: "semver_lt (SemVer 0 5 0) (SemVer 1 0 0)" by simp
  have g3: "semver_gt (SemVer 9 0 0) (SemVer 2 0 0)" by (simp add: semver_gt_def)
  have ok: "getVersion tankOptions plainEngine twoSaves (tank ''large'') (SemVer 5 0 0) True
              \<noteq> Inl PatchError"
    by code_simp
  have bad: "getVersion tankOptions plainEngine afterDelete (tank ''large'') (SemVer 2 0 0) True
              = Inl PatchError"
    by code_simp
  show ?thesis
    using getVersion_clamps[OF n2 e2 l2, where v="SemVer 5 0 0" and eng=plainEngine and inc=True]
      getVersion_clamps[OF n1 e1 l1, where v="SemVer 0 5 0" and eng=plainEngine and inc=True]
      getVersion_clamps[OF n3 e3 l3, where v="SemVer 9 0 0" and eng=plainEngine and inc=True]
      g l g3 c2 ok bad
    by blast
qed

text \<open>
  Claim C4. \<open>getVersion\<close> fails for an entity without history (\<open>getVersion_no_history\<close>),
  but not only then: with the records \<open>0.0.0\<close> and \<open>1.0.0\<close> of the two saves, the
  request for \<open>0.1.0\<close> lies inside the range, no record has that version, and the call
  fails on the deletion of \<open>diff\<close> from an undefined result.
\<close>

theorem getVersion_between_versions_fails:
  "map h_version (ownHistories tankOptions twoSaves (tank ''large''))
     = [Some (SemVer 0 0 0), Some (SemVer 1 0 0)] \<and>
   getVersion tankOptions plainEngine twoSaves (tank ''large'') (SemVer 0 1 0) True = Inl TypeError"
  by code_simp

section \<open>Comparing versions\<close>






section \<open>Projecting records\<close>

lemma keeps_forced:
  assumes "k \<in> {''_id'', ''collectionId'', ''collectionName''}"
  shows "\<not> keeps (forcedExclusions sel) k"
  using assms by (auto simp: keeps_def forcedExclusions_def)

lemma project_forced:
  "h_id (project opts (forcedExclusions sel) r) = None \<and>
   h_collectionId (project opts (forcedExclusions sel) r) = None \<and>
   h_collectionName (project opts (forcedExclusions sel) r) = None"
  by (simp add: project_def keeps_forced)

lemma queryHistory_selected:
  assumes "opt_select options = Some sel" "queryHistory opts s how options = Inr rs" "r \<in> set rs"
  shows "h_id r = None \<and> h_collectionId r = None \<and> h_collectionName r = None"
  using assms project_forced
  by (auto simp: queryHistory_def applySelect_def Let_def split: if_splits)

lemma queryHistory_unselected:
  assumes "opt_select options = None"
  shows "\<exists>rs. queryHistory opts s how options = Inr rs \<and> set rs \<subseteq> set (historyStore s)"
  using assms
  by (auto simp: queryHistory_def Let_def applySort_def
      split: option.splits queryMethod.splits dest: in_set_takeD)

text \<open>
  Claim C10. When the caller of \<open>getDiffs\<close> or \<open>getDiff\<close> supplies a \<open>select\<close> projection,
  \<open>_id\<close>, \<open>collectionId\<close> and \<open>collectionName\<close> are set to \<open>0\<close> in it, whatever it held
  for them, and no returned record has any of the three fields. Without a \<open>select\<close> the
  records are returned as stored, with all three.
\<close>

theorem select_drops_identity:
  "(opt_select options = Some sel \<longrightarrow>
      fmlookup (forcedExclusions sel) ''_id'' = Some 0 \<and>
      fmlookup (forcedExclusions sel) ''collectionId'' = Some 0 \<and>
      fmlookup (forcedExclusions sel) ''collectionName'' = Some 0 \<and>
      (\<forall>rs. getDiffs opts s this options = Inr rs \<longrightarrow>
         (\<forall>r\<in>set rs. h_id r = None \<and> h_collectionId r = None \<and> h_collectionName r = None)) \<and>
      (\<forall>r. getDiff opts s this v options = Inr (Some r) \<longrightarrow>
         h_id r = None \<and> h_collectionId r = None \<and> h_collectionName r = None)) \<and>
   (opt_select options = None \<and> storeComplete s \<longrightarrow>
      (\<exists>rs. getDiffs opts s this options = Inr rs \<and>
         (\<forall>r\<in>set rs. h_id r \<noteq> None \<and> h_collectionId r \<noteq> None \<and> h_collectionName r \<noteq> None)) \<and>
      (\<exists>found. getDiff opts s this v options = Inr found \<and>
         (\<forall>r. found = Some r \<longrightarrow>
            h_id r \<noteq> None \<and> h_collectionId r \<noteq> None \<and> h_collectionName r \<noteq> None)))"
proof (intro conjI impI)
  assume sel: "opt_select options = Some sel"
  show "fmlookup (forcedExclusions sel) ''_id'' = Some 0"
    and "fmlookup (forcedExclusions sel) ''collectionId'' = Some 0"
    and "fmlookup (forcedExclusions sel) ''collectionName'' = Some 0"
    by (simp_all add: forcedExclusions_def)
  show "\<forall>rs. getDiffs opts s this options = Inr rs \<longrightarrow>
         (\<forall>r\<in>set rs. h_id r = None \<and> h_collectionId r = None \<and> h_collectionName r = None)"
    unfolding getDiffs_def Let_def
    using sel by (intro allI impI ballI queryHistory_selected[where sel=sel]) simp_all
  show "\<forall>r. getDiff opts s this v options = Inr (Some r) \<longrightarrow>
         h_id r = None \<and> h_collectionId r = None \<and> h_collectionName r = None"
  proof (intro allI impI)
    fix r
    assume g: "getDiff opts s this v options = Inr (Some r)"
    let ?o = "options\<lparr> opt_find := Some ((case opt_find options of None \<Rightarrow> emptyFilter | Some f \<Rightarrow> f)
                \<lparr> f_collectionName := Some (getModelName opts (modelName this)),
                  f_collectionId := Some (doc_id this), f_version := Some v \<rparr>),
              opt_sort := Some (defaultSort (opt_sort options) (''-'' @ timestampFieldName opts)) \<rparr>"
    from g obtain rs where q: "queryHistory opts s FindOne ?o = Inr rs" and r: "r \<in> set rs"
      by (auto simp: getDiff_def Let_def split: sum.splits list.splits)
    have "opt_select ?o = Some sel" using sel by simp
    from queryHistory_selected[OF this q r] show
      "h_id r = None \<and> h_collectionId r = None \<and> h_collectionName r = None" .
  qed
next
  assume h: "opt_select options = None \<and> storeComplete s"
  then have all: "\<And>r. r \<in> set (historyStore s) \<Longrightarrow>
      h_id r \<noteq> None \<and> h_collectionId r \<noteq> None \<and> h_collectionName r \<noteq> None"
    by (auto simp: storeComplete_def list_all_iff)
  show "\<exists>rs. getDiffs opts s this options = Inr rs \<and>
         (\<forall>r\<in>set rs. h_id r \<noteq> None \<and> h_collectionId r \<noteq> None \<and> h_collectionName r \<noteq> None)"
    unfolding getDiffs_def Let_def
    using queryHistory_unselected[where opts=opts and s=s and how=Find and options="options\<lparr> opt_find := Some ((case opt_find options of None \<Rightarrow> emptyFilter | Some f \<Rightarrow> f)
                \<lparr> f_collectionName := Some (getModelName opts (modelName this)),
                  f_collectionId := Some (doc_id this) \<rparr>),
              opt_sort := Some (defaultSort (opt_sort options) (''-'' @ timestampFieldName opts)) \<rparr>"] h all
    by (simp, blast)
  show "\<exists>found. getDiff opts s this v options = Inr found \<and>
         (\<forall>r. found = Some r \<longrightarrow>
            h_id r \<noteq> None \<and> h_collectionId r \<noteq> None \<and> h_collectionName r \<noteq> None)"
    unfolding getDiff_def Let_def
    using queryHistory_unselected[where opts=opts and s=s and how=FindOne and options="options\<lparr> opt_find := Some ((case opt_find options of None \<Rightarrow> emptyFilter | Some f \<Rightarrow> f)
                \<lparr> f_collectionName := Some (getModelName opts (modelName this)),
                  f_collectionId := Some (doc_id this), f_version := Some v \<rparr>),
              opt_sort := Some (defaultSort (opt_sort options) (''-'' @ timestampFieldName opts)) \<rparr>"] h all
    by (simp, auto split: list.splits)
qed

theorem select_drops_identity_witness:
  "(case getDiffs tankOptions twoSaves (tank ''large'')
           (noOptions\<lparr> opt_select := Some (fmupd ''collectionName'' 1 fmempty) \<rparr>) of
      Inl e \<Rightarrow> False
    | Inr rs \<Rightarrow> length rs = 2 \<and>
        list_all (\<lambda>r. h_id r = None \<and> h_collectionId r = None \<and> h_collectionName r = None) rs) \<and>
   (case getDiffs tankOptions twoSaves (tank ''large'') noOptions of
      Inl e \<Rightarrow> False
    | Inr rs \<Rightarrow> length rs = 2 \<and>
        list_all (\<lambda>r. h_id r \<noteq> None \<and> h_collectionId r \<noteq> None \<and> h_collectionName r \<noteq> None) rs)"
proof -
  let ?sel = "fmupd ''collectionName'' 1 fmempty :: (string, int) fmap"
  let ?o = "noOptions\<lparr> opt_select := Some ?sel \<rparr>"
  have s1: "opt_select ?o = Some ?sel" by simp
  have s2: "opt_select noOptions = None \<and> storeComplete twoSaves"
    by (rule conjI) (simp add: noOptions_def, code_simp)
  have l1: "case getDiffs tankOptions twoSaves (tank ''large'') ?o of
              Inl e \<Rightarrow> False | Inr rs \<Rightarrow> length rs = 2"
    by code_simp
  have l2: "case getDiffs tankOptions twoSaves (tank ''large'') noOptions of
              Inl e \<Rightarrow> False | Inr rs \<Rightarrow> length rs = 2"
    by code_simp
  note t1 = select_drops_identity[where options="?o" and sel="?sel" and opts=tankOptions
      and s=twoSaves and this="tank ''large''" and v="SemVer 0 0 0"]
  note t2 = select_drops_identity[where options=noOptions and sel="?sel" and opts=tankOptions
      and s=twoSaves and this="tank ''large''" and v="SemVer 0 0 0"]
  have a: "case getDiffs tankOptions twoSaves (tank ''large'') ?o of
      Inl e \<Rightarrow> False
    | Inr rs \<Rightarrow> length rs = 2 \<and>
        list_all (\<lambda>r. h_id r = None \<and> h_collectionId r = None \<and> h_collectionName r = None) rs"
    using l1 t1 s1 by (auto simp: list_all_iff split: sum.splits)
  have b: "case getDiffs tankOptions twoSaves (tank ''large'') noOptions of
      Inl e \<Rightarrow> False
    | Inr rs \<Rightarrow> length rs = 2 \<and>
        list_all (\<lambda>r. h_id r \<noteq> None \<and> h_collectionId r \<noteq> None \<and> h_collectionName r \<noteq> None) rs"
    using l2 t2 s2 by (auto simp: list_all_iff split: sum.splits)
  show ?thesis using a b by blast
qed

section \<open>The commit policy\<close>

lemma preSave_result:
  "preSave opts eng forceSave this s =
     (if (history this \<noteq> None \<or> noEventSave opts) \<and>
         (truthyOpt (currentDiff opts eng forceSave this (previousState opts eng s this)) \<or>
          noDiffSave opts \<or> saveWithoutDiff opts this)
      then Inr (this\<lparr> history := None \<rparr>,
                saveHistory opts (buildRecord opts this
                               (currentDiff opts eng forceSave this (previousState opts eng s this))
                               (lastHistoryOf opts s this)) s)
      else Inr (this, s))"
  by (auto simp: preSave_def preSaveHook_def previousState_def storeAnswers_def getPrevious_def
      Let_def split: sum.splits option.splits)

lemma truthy_normalise: "truthy (normalise opts j) = truthy j"
  by (cases j) (simp_all add: normalise_def)

lemma truthy_previousObject: "truthy (previousObject opts previous)"
  by (auto simp: previousObject_def truthy_normalise split: option.splits)

lemma truthy_currentDiff:
  "truthyOpt (currentDiff opts eng forceSave this previous) \<or> saveWithoutDiff opts this
     \<longleftrightarrow> truthyOpt (jdiff eng (previousObject opts previous) (currentObject opts this)) \<or>
         saveWithoutDiff opts this"
  by (auto simp: currentDiff_def truthy_previousObject)

text \<open>
  Claim C3. On a store that answers, the hook of a save or a delete appends a history
  record if and only if pending metadata is present or \<open>noEventSave\<close> is set, and the
  computed diff is non-empty or \<open>noDiffSave\<close> is configured or \<open>saveWithoutDiff\<close> was set
  by the no-diff-methods rule; otherwise the hook calls \<open>next\<close> and the history is as it
  was.
\<close>

theorem history_record_iff:
  "\<exists>this' s'. preSave opts eng forceSave this s = Inr (this', s') \<and>
     ((\<exists>r. historyStore s' = historyStore s @ [r]) \<longleftrightarrow>
        (history this \<noteq> None \<or> noEventSave opts) \<and>
        (truthyOpt (jdiff eng (previousObject opts (previousState opts eng s this))
                              (currentObject opts this)) \<or>
         noDiffSave opts \<or> saveWithoutDiff opts this)) \<and>
     ((\<nexists>r. historyStore s' = historyStore s @ [r]) \<longrightarrow> historyStore s' = historyStore s)"
  using truthy_currentDiff[of opts eng forceSave this "previousState opts eng s this"]
  by (auto simp: preSave_result saveHistory_def)

theorem history_record_iff_witness:
  "length (historyStore (case preSave tankOptions plainEngine False (tank ''small'') emptyDb of
                           Inl e \<Rightarrow> emptyDb | Inr (d, s) \<Rightarrow> s)) = 1 \<and>
   historyStore (case preSave tankOptions plainEngine False (tank ''large'') twoSaves of
                   Inl e \<Rightarrow> emptyDb | Inr (d, s) \<Rightarrow> s) = historyStore twoSaves"
proof -
  have w1: "(history (tank ''small'') \<noteq> None \<or> noEventSave tankOptions) \<and>
        (truthyOpt (jdiff plainEngine
            (previousObject tankOptions (previousState tankOptions plainEngine emptyDb (tank ''small'')))
            (currentObject tankOptions (tank ''small''))) \<or>
         noDiffSave tankOptions \<or> saveWithoutDiff tankOptions (tank ''small''))"
    by code_simp
  have w2: "\<not> ((history (tank ''large'') \<noteq> None \<or> noEventSave tankOptions) \<and>
        (truthyOpt (jdiff plainEngine
            (previousObject tankOptions (previousState tankOptions plainEngine twoSaves (tank ''large'')))
            (currentObject tankOptions (tank ''large''))) \<or>
         noDiffSave tankOptions \<or> saveWithoutDiff tankOptions (tank ''large'')))"
    by code_simp
  have e: "historyStore emptyDb = []" by (simp add: emptyDb_def)
  from history_record_iff[of tankOptions plainEngine False "tank ''small''" emptyDb] w1 e
  have a: "length (historyStore (case preSave tankOptions plainEngine False (tank ''small'') emptyDb of
                           Inl e \<Rightarrow> emptyDb | Inr (d, s) \<Rightarrow> s)) = 1"
    by auto
  from history_record_iff[of tankOptions plainEngine False "tank ''large''" twoSaves] w2
  have b: "historyStore (case preSave tankOptions plainEngine False (tank ''large'') twoSaves of
                   Inl e \<Rightarrow> emptyDb | Inr (d, s) \<Rightarrow> s) = historyStore twoSaves"
    by auto
  show ?thesis using a b by simp
qed

section \<open>Failure of the previous-state lookup\<close>

text \<open>
  Claim C6 as stated fails for a top-level entity: when \<open>findById\<close> rejects, nothing
  catches the rejection before \<open>.catch(next)\<close>, and the save fails with the store's
  error.
\<close>

theorem lookup_failure_fails_save:
  "\<not> embeddedDocument tankOptions \<and>
   preSaveHook tankOptions plainEngine False (tank ''small'') lookupFails = Inl StoreError"
  by code_simp

text \<open>
  Claim C6, amended. For an embedded entity, a replay that throws gives the empty object
  as previous state, and the hook goes on as it does for an entity without history. For a
  top-level entity, a lookup that finds nothing gives the empty object, and a lookup that
  throws is handed to \<open>next\<close> and fails the mutation.
\<close>

theorem previous_state_lookup:
  "(embeddedDocument opts \<longrightarrow>
      getPrevious opts (answers\<lparr> io_getVersions := Inl e \<rparr>) = Inr (Some (JObj fmempty)) \<and>
      preSaveHook opts eng forceSave this (answers\<lparr> io_getVersions := Inl e \<rparr>)
        = preSaveHook opts eng forceSave this (answers\<lparr> io_getVersions := Inr [] \<rparr>)) \<and>
   (\<not> embeddedDocument opts \<and> io_findById answers = Inr None \<longrightarrow>
      (\<exists>previous. getPrevious opts answers = Inr previous \<and>
                  previousObject opts previous = JObj fmempty)) \<and>
   (\<not> embeddedDocument opts \<and> io_findById answers = Inl e \<and>
    (history this \<noteq> None \<or> noEventSave opts) \<longrightarrow>
      preSaveHook opts eng forceSave this answers = Inl e)"
  by (auto simp: getPrevious_def preSaveHook_def previousObject_def Let_def split: sum.splits option.splits)


theorem previous_state_lookup_witness:
  "preSaveHook embeddedOptions plainEngine False (tank ''small'') (lookupFails\<lparr> io_getVersions := Inl StoreError \<rparr>)
     = preSaveHook embeddedOptions plainEngine False (tank ''small'') (lookupFails\<lparr> io_getVersions := Inr [] \<rparr>) \<and>
   preSaveHook tankOptions plainEngine False (tank ''small'') lookupFails = Inl StoreError"
proof -
  have e: "embeddedDocument embeddedOptions" by (simp add: embeddedOptions_def)
  have t: "\<not> embeddedDocument tankOptions \<and> io_findById lookupFails = Inl StoreError \<and>
    (history (tank ''small'') \<noteq> None \<or> noEventSave tankOptions)"
    by (simp add: tankOptions_def lookupFails_def)
  show ?thesis
    using previous_state_lookup[where opts=embeddedOptions and answers=lookupFails and e=StoreError
        and eng=plainEngine and forceSave=False and this="tank ''small''"]
      previous_state_lookup[where opts=tankOptions and answers=lookupFails and e=StoreError
        and eng=plainEngine and forceSave=False and this="tank ''small''"] e t
    by blast
qed

section \<open>The forced commit of a no-diff method\<close>




section \<open>The metadata of a record\<close>

text \<open>
  Claim C8 as stated fails for the account: a document that has an account of its own
  is recorded with that account, not with the one of the pending metadata.
\<close>

theorem account_taken_from_document:
  "fmlookup (docFields ownedTank) (accountFieldName tankOptions) = Some (JStr ''A1'') \<and>
   map_option (\<lambda>h. fmlookup (mfields h) (accountFieldName tankOptions)) (history ownedTank)
     = Some (Some (JStr ''A2'')) \<and>
   (case preSaveHook tankOptions plainEngine False ownedTank findsSmall of
      Inr (d, Some obj) \<Rightarrow> fmlookup (meta obj) (accountFieldName tankOptions) = Some (JStr ''A1'')
    | _ \<Rightarrow> False)"
  by code_simp

lemma lookup_assign:
  "fmlookup (assign k v obj) k' = (if k' = k then v else fmlookup obj k')"
  by (cases v) (auto simp: assign_def)

lemma lookup_recordMeta:
  assumes "history this = Some h"
  shows "fmlookup (recordMeta opts this) k =
      (if k = methodFieldName opts then fmlookup (mfields h) (methodFieldName opts)
       else if k = ''data'' then fmlookup (mfields h) ''data''
       else if k = ''reason'' then fmlookup (mfields h) ''reason''
       else if k = accountFieldName opts
         then jsOr (fmlookup (docFields this) (accountFieldName opts))
                   (fmlookup (mfields h) (accountFieldName opts))
       else if k = userFieldName opts then fmlookup (mfields h) (userFieldName opts)
       else if k = ''event'' then fmlookup (mfields h) ''event''
       else None)"
  using assms by (simp add: recordMeta_def lookup_assign)

lemma lookup_stored_meta:
  "fmlookup (h_meta (newHistory opts obj t)) k =
     (if k = timestampFieldName opts then None else fmlookup (meta obj) k)"
  by (simp add: newHistory_def)

lemma preSave_appended:
  assumes "preSave opts eng forceSave this s = Inr (this', s')"
    and "historyStore s' = historyStore s @ [r]"
  shows "\<exists>d. r = newHistory opts (buildRecord opts this d (lastHistoryOf opts s this)) (clock s)"
  using assms by (auto simp: preSave_result saveHistory_def split: if_splits)

text \<open>
  Claim C8, amended. Let the configured names of the user, account, method and timestamp
  fields differ from each other and from the other fields of a record: \<open>event\<close>,
  \<open>reason\<close>, \<open>data\<close>, \<open>collectionName\<close>, \<open>collectionId\<close>, \<open>diff\<close>, \<open>version\<close> and \<open>_id\<close>. When
  a record is persisted with pending metadata present, the stored record's event, reason,
  data, user and method are those of the pending metadata, its account is the document's
  own account if that is truthy and the one of the pending metadata otherwise, and a value
  that is undefined leaves its field out of the record: the record has no other metadata
  field, and none that the source does not define.
\<close>

theorem record_metadata:
  assumes "preSave opts eng forceSave this s = Inr (this', s')"
    and "historyStore s' = historyStore s @ [r]"
    and "history this = Some h"
    and "distinct [''event'', userFieldName opts, accountFieldName opts, ''reason'', ''data'',
                   methodFieldName opts, timestampFieldName opts, ''collectionName'',
                   ''collectionId'', ''diff'', ''version'', ''_id'']"
  shows "fmlookup (h_meta r) ''event'' = fmlookup (mfields h) ''event'' \<and>
         fmlookup (h_meta r) ''reason'' = fmlookup (mfields h) ''reason'' \<and>
         fmlookup (h_meta r) ''data'' = fmlookup (mfields h) ''data'' \<and>
         fmlookup (h_meta r) (userFieldName opts) = fmlookup (mfields h) (userFieldName opts) \<and>
         fmlookup (h_meta r) (methodFieldName opts) = fmlookup (mfields h) (methodFieldName opts) \<and>
         fmlookup (h_meta r) (accountFieldName opts)
           = jsOr (fmlookup (docFields this) (accountFieldName opts))
                  (fmlookup (mfields h) (accountFieldName opts)) \<and>
         fmdom (h_meta r) |\<subseteq>| {|''event'', userFieldName opts, accountFieldName opts, ''reason'',
                                  ''data'', methodFieldName opts|}"
proof -
  obtain d where r: "r = newHistory opts (buildRecord opts this d (lastHistoryOf opts s this)) (clock s)"
    using preSave_appended[OF assms(1,2)] by blast
  have look: "fmlookup (h_meta r) k =
      (if k = timestampFieldName opts \<or> k = ''version'' then None
       else fmlookup (recordMeta opts this) k)" for k
    by (simp add: r lookup_stored_meta buildRecord_def)
  have dom: "fmdom (h_meta r) |\<subseteq>| {|''event'', userFieldName opts, accountFieldName opts,
                                   ''reason'', ''data'', methodFieldName opts|}"
  proof
    fix k assume "k |\<in>| fmdom (h_meta r)"
    then have "fmlookup (h_meta r) k \<noteq> None"
      by (simp add: fmlookup_dom_iff)
    then show "k |\<in>| {|''event'', userFieldName opts, accountFieldName opts,
                                   ''reason'', ''data'', methodFieldName opts|}"
      unfolding look lookup_recordMeta[OF assms(3)] by (auto split: if_splits)
  qed
  show ?thesis
    using assms(4) dom by (simp add: look lookup_recordMeta[OF assms(3)])
qed

theorem record_metadata_witness:
  "(case preSave tankOptions plainEngine False ownedTank emptyDb of
      Inr (d, s) \<Rightarrow>
        length (historyStore s) = 1 \<and>
        fmlookup (h_meta (last (historyStore s))) ''event'' = Some (JStr ''created'') \<and>
        fmlookup (h_meta (last (historyStore s))) ''reason'' = None \<and>
        fmlookup (h_meta (last (historyStore s))) ''user'' = None
    | _ \<Rightarrow> False)"
proof -
  have "case preSave tankOptions plainEngine False ownedTank emptyDb of
          Inr (d, s) \<Rightarrow> historyStore s = historyStore emptyDb @ [last (historyStore s)]
        | _ \<Rightarrow> False"
    by code_simp
  then obtain d s where
    1: "preSave tankOptions plainEngine False ownedTank emptyDb = Inr (d, s)"
    and 2: "historyStore s = historyStore emptyDb @ [last (historyStore s)]"
    by (auto split: sum.splits)
  have 3: "history ownedTank
            = Some \<lparr> mtype = None,
                     mfields = fmupd ''account'' (JStr ''A2'')
                                 (fmupd ''event'' (JStr ''created'') fmempty) \<rparr>"
    by (simp add: ownedTank_def)
  have 4: "distinct [''event'', userFieldName tankOptions, accountFieldName tankOptions,
                     ''reason'', ''data'', methodFieldName tankOptions,
                     timestampFieldName tankOptions, ''collectionName'', ''collectionId'',
                     ''diff'', ''version'', ''_id'']"
    by (simp add: tankOptions_def)
  have 5: "length (historyStore s) = 1"
    using 2 by (metis One_nat_def emptyDb_def append_Nil db.select_convs(1) length_Cons list.size(3))
  show ?thesis
    using record_metadata[OF 1 2 3 4] 1 5 by (simp add: tankOptions_def)
qed

section \<open>The history of one entity under saves\<close>
















section \<open>Replaying the history\<close>




















end
